theory Spec2Isabelle
  imports Main "HOL-Library.Word"
begin

unbundle bit_operations_syntax

section \<open>JavaScript strings and bytes\<close>

text \<open>
  A JavaScript string is a sequence of 16-bit code units; a \<open>Uint8Array\<close> is a sequence
  of bytes. String literals of the source are written \<open>js ''...''\<close>.
\<close>

type_synonym u8 = "8 word"
type_synonym u16 = "16 word"
type_synonym jsstring = "u16 list"

definition js :: "string \<Rightarrow> jsstring" where
  "js s = map of_char s"

text \<open>Truthiness of a string: every string but the empty one.\<close>

definition truthy_str :: "jsstring \<Rightarrow> bool" where
  "truthy_str s = (s \<noteq> [])"

text \<open>
  A value of type \<open>string | null\<close> (what \<open>getItem\<close> and \<open>searchParams.get\<close> return),
  \<open>None\<close> being \<open>null\<close>: its truthiness, and the string it becomes in a template
  literal or as a form value.
\<close>

definition truthy_param :: "jsstring option \<Rightarrow> bool" where
  "truthy_param v = (case v of None \<Rightarrow> False | Some s \<Rightarrow> truthy_str s)"

definition String_of :: "jsstring option \<Rightarrow> jsstring" where
  "String_of v = (case v of None \<Rightarrow> js ''null'' | Some s \<Rightarrow> s)"

text \<open>Exceptions, with the \<open>message\<close> a handler reads from them.\<close>

datatype exn = Error jsstring | TypeError jsstring | SyntaxError jsstring | DOMException jsstring

fun message :: "exn \<Rightarrow> jsstring" where
  "message (Error m) = m"
| "message (TypeError m) = m"
| "message (SyntaxError m) = m"
| "message (DOMException m) = m"

subsection \<open>\<open>TextEncoder.encode\<close>: UTF-8\<close>

text \<open>
  The platform encoder first reads the code units as Unicode scalar values (a surrogate
  pair is one value, a lone surrogate becomes U+FFFD) and then writes each value in
  UTF-8. On a string of ASCII characters the result is the string's ASCII bytes.
\<close>

definition is_high :: "u16 \<Rightarrow> bool" where
  "is_high u = (0xD800 \<le> u \<and> u \<le> 0xDBFF)"

definition is_low :: "u16 \<Rightarrow> bool" where
  "is_low u = (0xDC00 \<le> u \<and> u \<le> 0xDFFF)"

fun scalar_values :: "jsstring \<Rightarrow> nat list" where
  "scalar_values [] = []"
| "scalar_values [u] = [if is_high u \<or> is_low u then 0xFFFD else unat u]"
| "scalar_values (u # v # rest) =
     (if is_high u \<and> is_low v
      then (0x10000 + (unat u - 0xD800) * 0x400 + (unat v - 0xDC00)) # scalar_values rest
      else if is_high u \<or> is_low u then 0xFFFD # scalar_values (v # rest)
      else unat u # scalar_values (v # rest))"

definition utf8_of :: "nat \<Rightarrow> u8 list" where
  "utf8_of cp =
     (if cp < 0x80 then [of_nat cp]
      else if cp < 0x800 then [of_nat (0xC0 + cp div 64), of_nat (0x80 + cp mod 64)]
      else if cp < 0x10000 then
        [of_nat (0xE0 + cp div 4096), of_nat (0x80 + cp div 64 mod 64), of_nat (0x80 + cp mod 64)]
      else
        [of_nat (0xF0 + cp div 262144), of_nat (0x80 + cp div 4096 mod 64),
         of_nat (0x80 + cp div 64 mod 64), of_nat (0x80 + cp mod 64)])"

definition TextEncoder_encode :: "jsstring \<Rightarrow> u8 list" where
  "TextEncoder_encode s = concat (map utf8_of (scalar_values s))"

subsection \<open>\<open>crypto.subtle.digest("SHA-256", data)\<close>\<close>

text \<open>
  The digest is computed by the platform. It is modelled as FIPS 180-4 defines it, on
  naturals below \<open>2 ^ 32\<close> with the wrap-around written out as \<open>take_bit 32\<close>.
\<close>

definition add32 :: "nat \<Rightarrow> nat \<Rightarrow> nat" where
  "add32 x y = take_bit 32 (x + y)"

definition rotr :: "nat \<Rightarrow> nat \<Rightarrow> nat" where
  "rotr n x = drop_bit n x OR take_bit 32 (push_bit (32 - n) x)"

text \<open>\<open>Ch\<close> chooses between \<open>f\<close> and \<open>g\<close> by the bits of \<open>e\<close>; \<open>Maj\<close> is the majority.\<close>

definition Ch :: "nat \<Rightarrow> nat \<Rightarrow> nat \<Rightarrow> nat" where
  "Ch e f g = (e AND f) XOR ((e XOR 0xFFFFFFFF) AND g)"

definition Maj :: "nat \<Rightarrow> nat \<Rightarrow> nat \<Rightarrow> nat" where
  "Maj a b c = (a AND b) XOR ((a AND c) XOR (b AND c))"

definition Sigma0 :: "nat \<Rightarrow> nat" where
  "Sigma0 x = rotr 2 x XOR rotr 13 x XOR rotr 22 x"

definition Sigma1 :: "nat \<Rightarrow> nat" where
  "Sigma1 x = rotr 6 x XOR rotr 11 x XOR rotr 25 x"

definition sigma0 :: "nat \<Rightarrow> nat" where
  "sigma0 x = rotr 7 x XOR rotr 18 x XOR drop_bit 3 x"

definition sigma1 :: "nat \<Rightarrow> nat" where
  "sigma1 x = rotr 17 x XOR rotr 19 x XOR drop_bit 10 x"

definition K256 :: "nat list" where
  "K256 =
   [0x428A2F98, 0x71374491, 0xB5C0FBCF, 0xE9B5DBA5, 0x3956C25B, 0x59F111F1, 0x923F82A4, 0xAB1C5ED5,
    0xD807AA98, 0x12835B01, 0x243185BE, 0x550C7DC3, 0x72BE5D74, 0x80DEB1FE, 0x9BDC06A7, 0xC19BF174,
    0xE49B69C1, 0xEFBE4786, 0x0FC19DC6, 0x240CA1CC, 0x2DE92C6F, 0x4A7484AA, 0x5CB0A9DC, 0x76F988DA,
    0x983E5152, 0xA831C66D, 0xB00327C8, 0xBF597FC7, 0xC6E00BF3, 0xD5A79147, 0x06CA6351, 0x14292967,
    0x27B70A85, 0x2E1B2138, 0x4D2C6DFC, 0x53380D13, 0x650A7354, 0x766A0ABB, 0x81C2C92E, 0x92722C85,
    0xA2BFE8A1, 0xA81A664B, 0xC24B8B70, 0xC76C51A3, 0xD192E819, 0xD6990624, 0xF40E3585, 0x106AA070,
    0x19A4C116, 0x1E376C08, 0x2748774C, 0x34B0BCB5, 0x391C0CB3, 0x4ED8AA4A, 0x5B9CCA4F, 0x682E6FF3,
    0x748F82EE, 0x78A5636F, 0x84C87814, 0x8CC70208, 0x90BEFFFA, 0xA4506CEB, 0xBEF9A3F7, 0xC67178F2]"

type_synonym hash_state = "nat \<times> nat \<times> nat \<times> nat \<times> nat \<times> nat \<times> nat \<times> nat"

definition H0 :: hash_state where
  "H0 = (0x6A09E667, 0xBB67AE85, 0x3C6EF372, 0xA54FF53A,
         0x510E527F, 0x9B05688C, 0x1F83D9AB, 0x5BE0CD19)"

definition T1 :: "nat \<Rightarrow> nat \<Rightarrow> nat \<Rightarrow> nat \<Rightarrow> nat \<Rightarrow> nat \<Rightarrow> nat" where
  "T1 e f g h k w = take_bit 32 (h + Sigma1 e + Ch e f g + k + w)"

definition T2 :: "nat \<Rightarrow> nat \<Rightarrow> nat \<Rightarrow> nat" where
  "T2 a b c = take_bit 32 (Sigma0 a + Maj a b c)"

fun shift_in :: "hash_state \<Rightarrow> nat \<Rightarrow> nat \<Rightarrow> hash_state" where
  "shift_in (a, b, c, d, e, f, g, h) t1 t2 = (add32 t1 t2, a, b, c, add32 d t1, e, f, g)"

fun round256 :: "hash_state \<Rightarrow> nat \<Rightarrow> nat \<Rightarrow> hash_state" where
  "round256 (a, b, c, d, e, f, g, h) k w =
     shift_in (a, b, c, d, e, f, g, h) (T1 e f g h k w) (T2 a b c)"

text \<open>
  The 64 rounds of one block. The second argument is the window \<open>W t, ..., W (t + 15)\<close>
  of the message schedule; each round consumes \<open>W t\<close> and appends \<open>W (t + 16)\<close>.
\<close>

fun rounds :: "nat list \<Rightarrow> nat list \<Rightarrow> hash_state \<Rightarrow> hash_state" where
  "rounds (k # ks) (w # ws) s =
     rounds ks (ws @ [take_bit 32 (sigma1 (ws ! 13) + ws ! 8 + sigma0 (ws ! 0) + w)])
       (round256 s k w)"
| "rounds _ _ s = s"

fun add_state :: "hash_state \<Rightarrow> hash_state \<Rightarrow> hash_state" where
  "add_state (a, b, c, d, e, f, g, h) (a', b', c', d', e', f', g', h') =
     (add32 a a', add32 b b', add32 c c', add32 d d',
      add32 e e', add32 f f', add32 g g', add32 h h')"

definition compress :: "hash_state \<Rightarrow> nat list \<Rightarrow> hash_state" where
  "compress s m = add_state s (rounds K256 m s)"

definition be32 :: "u8 \<Rightarrow> u8 \<Rightarrow> u8 \<Rightarrow> u8 \<Rightarrow> nat" where
  "be32 a b c d = unat a * 2 ^ 24 + unat b * 2 ^ 16 + unat c * 2 ^ 8 + unat d"

fun words_of :: "u8 list \<Rightarrow> nat list" where
  "words_of (a # b # c # d # rest) = be32 a b c d # words_of rest"
| "words_of _ = []"

definition bytes_of32 :: "nat \<Rightarrow> u8 list" where
  "bytes_of32 w =
     [of_nat (w div 2 ^ 24 mod 256), of_nat (w div 2 ^ 16 mod 256),
      of_nat (w div 2 ^ 8 mod 256), of_nat (w mod 256)]"

definition bytes_of64 :: "nat \<Rightarrow> u8 list" where
  "bytes_of64 n = bytes_of32 (n div 2 ^ 32 mod 2 ^ 32) @ bytes_of32 (n mod 2 ^ 32)"

definition pad :: "u8 list \<Rightarrow> u8 list" where
  "pad m = m @ [0x80] @ replicate ((119 - length m mod 64) mod 64) 0
             @ bytes_of64 (8 * length m)"

function blocks :: "hash_state \<Rightarrow> u8 list \<Rightarrow> hash_state" where
  "blocks s bs = (if length bs < 64 then s
                  else blocks (compress s (words_of (take 64 bs))) (drop 64 bs))"
  by pat_completeness auto
termination
  by (relation "measure (\<lambda>(s, bs). length bs)") auto

declare blocks.simps [simp del]

fun digest_bytes :: "hash_state \<Rightarrow> u8 list" where
  "digest_bytes (a, b, c, d, e, f, g, h) =
     concat (map bytes_of32 [a, b, c, d, e, f, g, h])"

definition SHA256 :: "u8 list \<Rightarrow> u8 list" where
  "SHA256 m = digest_bytes (blocks H0 (pad m))"

subsection \<open>\<open>String.fromCharCode\<close>, \<open>btoa\<close> and \<open>String.replace\<close>\<close>

definition fromCharCode :: "u8 list \<Rightarrow> jsstring" where
  "fromCharCode bs = map ucast bs"

definition base64_alphabet :: string where
  "base64_alphabet = ''ABCDEFGHIJKLMNOPQRSTUVWXYZabcdefghijklmnopqrstuvwxyz0123456789+/''"

definition b64chr :: "nat \<Rightarrow> u16" where
  "b64chr n = js base64_alphabet ! n"

definition eq_sign :: u16 where
  "eq_sign = of_char (CHR ''='')"

fun btoa_bytes :: "u8 list \<Rightarrow> jsstring" where
  "btoa_bytes [] = []"
| "btoa_bytes [a] =
     [b64chr (unat a div 4), b64chr (unat a mod 4 * 16), eq_sign, eq_sign]"
| "btoa_bytes [a, b] =
     [b64chr (unat a div 4), b64chr (unat a mod 4 * 16 + unat b div 16),
      b64chr (unat b mod 16 * 4), eq_sign]"
| "btoa_bytes (a # b # c # rest) =
     [b64chr (unat a div 4), b64chr (unat a mod 4 * 16 + unat b div 16),
      b64chr (unat b mod 16 * 4 + unat c div 64), b64chr (unat c mod 64)] @ btoa_bytes rest"

text \<open>
  \<open>btoa\<close> throws an \<open>InvalidCharacterError\<close> when a code unit of its argument is
  above \<open>0xFF\<close> (the text of the exception is the engine's; Chromium's is used).
\<close>

definition btoa :: "jsstring \<Rightarrow> exn + jsstring" where
  "btoa s =
     (if list_all (\<lambda>c. c \<le> 0xFF) s then Inr (btoa_bytes (map ucast s))
      else Inl (DOMException (js ''The string to be encoded contains characters outside of the Latin1 range.'')))"

text \<open>\<open>s.replace(/c/g, d)\<close> for a single character \<open>c\<close>.\<close>

definition replace_all :: "u16 \<Rightarrow> u16 \<Rightarrow> jsstring \<Rightarrow> jsstring" where
  "replace_all c d s = map (\<lambda>x. if x = c then d else x) s"

text \<open>\<open>s.replace(/=+$/, "")\<close>: the run of \<open>=\<close> that ends the string is removed.\<close>

definition strip_trailing_eq :: "jsstring \<Rightarrow> jsstring" where
  "strip_trailing_eq s = rev (dropWhile (\<lambda>x. x = eq_sign) (rev s))"

subsection \<open>\<open>URLSearchParams\<close>\<close>


definition hex_digit :: "nat \<Rightarrow> u16" where
  "hex_digit n = js ''0123456789ABCDEF'' ! n"

definition form_byte :: "u8 \<Rightarrow> jsstring" where
  "form_byte b =
     (let n = unat b in
      if n = 0x20 then js ''+''
      else if (0x30 \<le> n \<and> n \<le> 0x39) \<or> (0x41 \<le> n \<and> n \<le> 0x5A) \<or> (0x61 \<le> n \<and> n \<le> 0x7A)
              \<or> n = 0x2A \<or> n = 0x2D \<or> n = 0x2E \<or> n = 0x5F
      then [ucast b]
      else js ''%'' @ [hex_digit (n div 16), hex_digit (n mod 16)])"

definition form_encode :: "jsstring \<Rightarrow> jsstring" where
  "form_encode s = concat (map form_byte (TextEncoder_encode s))"

fun join_amp :: "jsstring list \<Rightarrow> jsstring" where
  "join_amp [] = []"
| "join_amp [x] = x"
| "join_amp (x # y # ys) = x @ js ''&'' @ join_amp (y # ys)"

definition URLSearchParams_toString :: "(jsstring \<times> jsstring) list \<Rightarrow> jsstring" where
  "URLSearchParams_toString ps =
     join_amp (map (\<lambda>(k, v). form_encode k @ js ''='' @ form_encode v) ps)"

section \<open>The home page: PKCE values\<close>

subsection \<open>\<open>generateRandomString\<close>\<close>

text \<open>
  \<open>crypto.getRandomValues\<close> fills the array from the platform's random source, which
  is an endless supply of bytes here.
\<close>

type_synonym rng = "nat \<Rightarrow> u8"

definition getRandomValues :: "nat \<Rightarrow> rng \<Rightarrow> u8 list \<times> rng" where
  "getRandomValues n g = (map g [0..<n], \<lambda>i. g (i + n))"

definition charset :: string where
  "charset = ''ABCDEFGHIJKLMNOPQRSTUVWXYZabcdefghijklmnopqrstuvwxyz0123456789-._~''"

definition generateRandomString :: "nat \<Rightarrow> rng \<Rightarrow> jsstring \<times> rng" where
  "generateRandomString len g =
     (case getRandomValues len g of
        (randomValues, g') \<Rightarrow>
          (map (\<lambda>v. js charset ! (unat v mod length (js charset))) randomValues, g'))"

subsection \<open>\<open>sha256\<close>\<close>

definition sha256 :: "jsstring \<Rightarrow> exn + jsstring" where
  "sha256 plain =
     (let data = TextEncoder_encode plain;
          hash = SHA256 data
      in case btoa (fromCharCode hash) of
           Inl e \<Rightarrow> Inl e
         | Inr b \<Rightarrow>
             Inr (strip_trailing_eq
                   (replace_all (of_char (CHR ''/'')) (of_char (CHR ''_''))
                     (replace_all (of_char (CHR ''+'')) (of_char (CHR ''-'')) b))))"

subsection \<open>\<open>startAuthFlow\<close>\<close>

text \<open>
  What the handler touches on the home page: session storage, the \<open>loading\<close> and
  \<open>error\<close> cells, and \<open>window.location.href\<close> once it is assigned.
\<close>

record home =
  home_storage :: "jsstring \<rightharpoonup> jsstring"
  loading :: bool
  home_error :: "jsstring option"
  location_href :: "jsstring option"

definition startAuthFlow :: "rng \<Rightarrow> home \<Rightarrow> home \<times> rng" where
  "startAuthFlow g st =
     (let st0 = st\<lparr>loading := True, home_error := None\<rparr> in
      case generateRandomString 128 g of
        (codeVerifier, g1) \<Rightarrow>
          (case sha256 codeVerifier of
             Inl err \<Rightarrow> (st0\<lparr>home_error := Some (message err), loading := False\<rparr>, g1)
           | Inr codeChallenge \<Rightarrow>
               let st1 = st0\<lparr>home_storage := (home_storage st0)(js ''code_verifier'' \<mapsto> codeVerifier)\<rparr>
               in case generateRandomString 16 g1 of
                    (state, g2) \<Rightarrow>
                      (st1\<lparr>location_href := Some (js ''/oidc/auth?'' @ URLSearchParams_toString
                          [(js ''client_id'', js ''partner-dashboard-local-2''),
                           (js ''redirect_uri'', js ''http://localhost:3000/auth/callback''),
                           (js ''scope'', js ''openid profile email offline_access''),
                           (js ''response_type'', js ''code''),
                           (js ''code_challenge'', codeChallenge),
                           (js ''code_challenge_method'', js ''S256''),
                           (js ''state'', state)])\<rparr>, g2)))"

section \<open>The callback page\<close>

subsection \<open>Values the page handles\<close>

text \<open>
  What \<open>response.json()\<close> can yield. A number is kept as the text that
  \<open>Number.prototype.toString\<close> gives for it (so both zeros are \<open>''0''\<close>); an object
  is the list of its own properties, each name once, in the order the engine enumerates
  them. A value of type \<open>json option\<close> is a JavaScript
  value read from such data, \<open>None\<close> being \<open>undefined\<close>.
\<close>

datatype json =
    JNull
  | JBool bool
  | JNum jsstring
  | JStr jsstring
  | JArr "json list"
  | JObj "(jsstring \<times> json) list"

text \<open>
  Reading a property \<open>v.name\<close>. On \<open>null\<close> it throws a \<open>TypeError\<close> (whose text is the
  engine's; V8's is used). The names the page reads are no built-in property of a
  string, number, boolean or array, so the read gives \<open>undefined\<close> there.
\<close>

definition null_read :: "jsstring \<Rightarrow> exn" where
  "null_read name =
     TypeError (js ''Cannot read properties of null (reading '' @ [0x27] @ name @ [0x27] @ js '')'')"

fun get_prop :: "json \<Rightarrow> jsstring \<Rightarrow> exn + json option" where
  "get_prop JNull name = Inl (null_read name)"
| "get_prop (JObj kvs) name = Inr (map_of kvs name)"
| "get_prop _ name = Inr None"

fun truthy :: "json option \<Rightarrow> bool" where
  "truthy None = False"
| "truthy (Some JNull) = False"
| "truthy (Some (JBool b)) = b"
| "truthy (Some (JNum n)) = (n \<noteq> js ''0'')"
| "truthy (Some (JStr s)) = (s \<noteq> [])"
| "truthy (Some (JArr xs)) = True"
| "truthy (Some (JObj kvs)) = True"

fun join_comma :: "jsstring list \<Rightarrow> jsstring" where
  "join_comma [] = []"
| "join_comma [x] = x"
| "join_comma (x # y # ys) = x @ js '','' @ join_comma (y # ys)"

text \<open>The conversion to a string that \<open>new Error(v)\<close> and \<open>setItem(k, v)\<close> apply.\<close>

fun ToString_json :: "json \<Rightarrow> jsstring" where
  "ToString_json JNull = js ''null''"
| "ToString_json (JBool b) = (if b then js ''true'' else js ''false'')"
| "ToString_json (JNum n) = n"
| "ToString_json (JStr s) = s"
| "ToString_json (JArr xs) =
     join_comma (map (\<lambda>x. if x = JNull then [] else ToString_json x) xs)"
| "ToString_json (JObj kvs) = js ''[object Object]''"

fun ToString :: "json option \<Rightarrow> jsstring" where
  "ToString None = js ''undefined''"
| "ToString (Some v) = ToString_json v"

text \<open>
  \<open>JSON.stringify\<close> of such a value: a string is quoted with the escapes of the
  language specification, an object lists its properties in their order.
\<close>

definition hex4 :: "nat \<Rightarrow> jsstring" where
  "hex4 n = map (\<lambda>k. js ''0123456789abcdef'' ! (n div 16 ^ k mod 16)) [3, 2, 1, 0]"

definition escape_unit :: "u16 \<Rightarrow> jsstring" where
  "escape_unit u =
     (if u = 0x22 then [0x5C, 0x22]
      else if u = 0x5C then [0x5C, 0x5C]
      else if u = 0x08 then [0x5C, 0x62]
      else if u = 0x0C then [0x5C, 0x66]
      else if u = 0x0A then [0x5C, 0x6E]
      else if u = 0x0D then [0x5C, 0x72]
      else if u = 0x09 then [0x5C, 0x74]
      else if u < 0x20 \<or> is_high u \<or> is_low u then [0x5C, 0x75] @ hex4 (unat u)
      else [u])"

fun quote_units :: "jsstring \<Rightarrow> jsstring" where
  "quote_units [] = []"
| "quote_units [u] = escape_unit u"
| "quote_units (u # v # rest) =
     (if is_high u \<and> is_low v then u # v # quote_units rest
      else escape_unit u @ quote_units (v # rest))"

definition QuoteJSONString :: "jsstring \<Rightarrow> jsstring" where
  "QuoteJSONString s = [0x22] @ quote_units s @ [0x22]"

fun JSON_stringify :: "json \<Rightarrow> jsstring" where
  "JSON_stringify JNull = js ''null''"
| "JSON_stringify (JBool b) = (if b then js ''true'' else js ''false'')"
| "JSON_stringify (JNum n) = n"
| "JSON_stringify (JStr s) = QuoteJSONString s"
| "JSON_stringify (JArr xs) = js ''['' @ join_comma (map JSON_stringify xs) @ js '']''"
| "JSON_stringify (JObj kvs) =
     js ''{'' @ join_comma (map (\<lambda>(k, v). QuoteJSONString k @ js '':'' @ JSON_stringify v) kvs) @ js ''}''"

subsection \<open>\<open>fetch\<close>\<close>

record request =
  url :: jsstring
  http_method :: jsstring
  headers :: "(jsstring \<times> jsstring) list"
  body :: jsstring

text \<open>
  A response is its status and what \<open>response.json()\<close> settles to: the parsed body, or
  the exception it rejects with when the body is not JSON. \<open>fetch\<close> itself settles to a
  response or rejects.
\<close>

record response =
  status :: nat
  json_result :: "exn + json"

definition ok :: "response \<Rightarrow> bool" where
  "ok r = (200 \<le> status r \<and> status r \<le> 299)"

type_synonym fetch = "request \<Rightarrow> exn + response"

subsection \<open>The page\<close>

text \<open>
  The state the page reads and writes: session storage, the two \<open>useState\<close> cells, and
  the traces of its effects (requests sent, \<open>console.error\<close> calls, and the paths
  \<open>router.push\<close> is scheduled for, with their delay). \<open>setItem\<close> is taken to succeed.
\<close>

record page =
  sessionStorage :: "jsstring \<rightharpoonup> jsstring"
  error :: "jsstring option"
  exchanging :: bool
  fetched :: "request list"
  console_error :: "exn list"
  timeouts :: "(nat \<times> jsstring) list"

definition setItem :: "jsstring \<Rightarrow> jsstring \<Rightarrow> page \<Rightarrow> page" where
  "setItem k v st = st\<lparr>sessionStorage := (sessionStorage st)(k \<mapsto> v)\<rparr>"

definition token_request :: "jsstring \<Rightarrow> jsstring \<Rightarrow> request" where
  "token_request code codeVerifier =
     \<lparr>url = js ''/oidc/token'',
      http_method = js ''POST'',
      headers = [(js ''Content-Type'', js ''application/x-www-form-urlencoded'')],
      body = URLSearchParams_toString
        [(js ''grant_type'', js ''authorization_code''),
         (js ''code'', code),
         (js ''redirect_uri'', js ''http://localhost:3000/auth/callback''),
         (js ''client_id'', js ''partner-dashboard-local-2''),
         (js ''code_verifier'', codeVerifier)]\<rparr>"

definition missing_verifier :: exn where
  "missing_verifier =
     Error (js ''Code verifier not found. Please start the auth flow from the home page.'')"

text \<open>
  The \<open>try\<close> block of \<open>exchangeCodeForTokens\<close>: the exception it throws, if any, and
  the state it leaves.
\<close>

definition store_tokens :: "json \<Rightarrow> page \<Rightarrow> exn option \<times> page" where
  "store_tokens tokenData st =
     (case get_prop tokenData (js ''access_token'') of
        Inl e \<Rightarrow> (Some e, st)
      | Inr access_token \<Rightarrow>
          let st2 = setItem (js ''access_token'') (ToString access_token) st in
          (case get_prop tokenData (js ''id_token'') of
             Inl e \<Rightarrow> (Some e, st2)
           | Inr id_token \<Rightarrow>
               let st3 = setItem (js ''id_token'') (ToString id_token) st2 in
               (case get_prop tokenData (js ''refresh_token'') of
                  Inl e \<Rightarrow> (Some e, st3)
                | Inr refresh_token \<Rightarrow>
                    let st4 = (if truthy refresh_token
                               then setItem (js ''refresh_token'') (ToString refresh_token) st3
                               else st3);
                        st5 = setItem (js ''tokens'') (JSON_stringify tokenData) st4
                    in (None, st5\<lparr>timeouts := timeouts st5 @ [(1500, js ''/'')]\<rparr>))))"

definition exchange_try :: "fetch \<Rightarrow> jsstring \<Rightarrow> page \<Rightarrow> exn option \<times> page" where
  "exchange_try fetch code st =
     (let codeVerifier = sessionStorage st (js ''code_verifier'') in
      if \<not> truthy_param codeVerifier then
        (Some missing_verifier, st)
      else
        let req = token_request code (String_of codeVerifier);
            st1 = st\<lparr>fetched := fetched st @ [req]\<rparr>
        in (case fetch req of
              Inl e \<Rightarrow> (Some e, st1)
            | Inr response \<Rightarrow>
                if \<not> ok response then
                  (case json_result response of
                     Inl e \<Rightarrow> (Some e, st1)
                   | Inr errorData \<Rightarrow>
                       (case get_prop errorData (js ''error_description'') of
                          Inl e \<Rightarrow> (Some e, st1)
                        | Inr d \<Rightarrow>
                            (Some (Error (if truthy d then ToString d
                                          else js ''Token exchange failed'')), st1)))
                else
                  (case json_result response of
                     Inl e \<Rightarrow> (Some e, st1)
                   | Inr tokenData \<Rightarrow> store_tokens tokenData st1)))"

definition exchangeCodeForTokens :: "fetch \<Rightarrow> jsstring \<Rightarrow> page \<Rightarrow> page" where
  "exchangeCodeForTokens fetch code st =
     (case exchange_try fetch code (st\<lparr>exchanging := True\<rparr>) of
        (None, st') \<Rightarrow> st'\<lparr>exchanging := False\<rparr>
      | (Some err, st') \<Rightarrow>
          st'\<lparr>console_error := console_error st' @ [err],
              error := Some (message err),
              exchanging := False\<rparr>)"


section \<open>Auxiliary notions for the properties\<close>

subsection \<open>The challenge as the specification words it\<close>

text \<open>
  \<open>base64url(sha256(verifier))\<close> with no padding, as RFC 7636 and RFC 4648 (section 5)
  define it: the digest of the verifier's bytes in the URL-safe alphabet, three bytes to
  four characters, a last group of one or two bytes to two or three characters.
\<close>

definition base64url_alphabet :: string where
  "base64url_alphabet = ''ABCDEFGHIJKLMNOPQRSTUVWXYZabcdefghijklmnopqrstuvwxyz0123456789-_''"

definition urlchr :: "nat \<Rightarrow> u16" where
  "urlchr n = js base64url_alphabet ! n"

fun base64url :: "u8 list \<Rightarrow> jsstring" where
  "base64url [] = []"
| "base64url [a] = [urlchr (unat a div 4), urlchr (unat a mod 4 * 16)]"
| "base64url [a, b] =
     [urlchr (unat a div 4), urlchr (unat a mod 4 * 16 + unat b div 16),
      urlchr (unat b mod 16 * 4)]"
| "base64url (a # b # c # rest) =
     [urlchr (unat a div 4), urlchr (unat a mod 4 * 16 + unat b div 16),
      urlchr (unat b mod 16 * 4 + unat c div 64), urlchr (unat c mod 64)] @ base64url rest"

definition s256_challenge :: "jsstring \<Rightarrow> jsstring" where
  "s256_challenge verifier = base64url (SHA256 (TextEncoder_encode verifier))"

subsection \<open>Notions for the proofs\<close>

text \<open>The two replacements of \<open>sha256\<close> on one character.\<close>

definition url_safe :: "u16 \<Rightarrow> u16" where
  "url_safe x =
     (let y = (if x = of_char (CHR ''+'') then of_char (CHR ''-'') else x)
      in if y = of_char (CHR ''/'') then of_char (CHR ''_'') else y)"

definition to_url :: "jsstring \<Rightarrow> jsstring" where
  "to_url b = strip_trailing_eq (map url_safe b)"

text \<open>The 62 characters the two alphabets share.\<close>

definition alnum :: jsstring where
  "alnum = js ''ABCDEFGHIJKLMNOPQRSTUVWXYZabcdefghijklmnopqrstuvwxyz0123456789''"

text \<open>What the \<open>catch\<close> and \<open>finally\<close> blocks leave after the exception \<open>e\<close>.\<close>

definition caught :: "exn \<Rightarrow> page \<Rightarrow> page" where
  "caught e st =
     st\<lparr>console_error := console_error st @ [e], error := Some (message e), exchanging := False\<rparr>"

definition sent :: "jsstring \<Rightarrow> page \<Rightarrow> page" where
  "sent code st =
     st\<lparr>fetched := fetched st @
        [token_request code (String_of (sessionStorage st (js ''code_verifier'')))]\<rparr>"

text \<open>Reading a property of a value that is not \<open>null\<close>.\<close>

definition field :: "json \<Rightarrow> jsstring \<Rightarrow> json option" where
  "field v name = (case v of JObj kvs \<Rightarrow> map_of kvs name | _ \<Rightarrow> None)"

text \<open>What the \<open>try\<close> block leaves once it has stored the tokens of \<open>tokenData\<close>.\<close>

definition stored :: "json \<Rightarrow> page \<Rightarrow> page" where
  "stored tokenData st =
     st\<lparr>sessionStorage :=
          (let m = (sessionStorage st)
                 (js ''access_token'' \<mapsto> ToString (field tokenData (js ''access_token'')),
                  js ''id_token'' \<mapsto> ToString (field tokenData (js ''id_token'')));
               m' = (if truthy (field tokenData (js ''refresh_token''))
                     then m(js ''refresh_token'' \<mapsto> ToString (field tokenData (js ''refresh_token'')))
                     else m)
           in m'(js ''tokens'' \<mapsto> JSON_stringify tokenData)),
        timeouts := timeouts st @ [(1500, js ''/'')]\<rparr>"


definition failed_with :: "exn \<Rightarrow> page \<Rightarrow> page \<Rightarrow> bool" where
  "failed_with e st st' =
     (error st' = Some (message e) \<and> console_error st' = console_error st @ [e]
      \<and> sessionStorage st' = sessionStorage st \<and> timeouts st' = timeouts st
      \<and> \<not> exchanging st')"

text \<open>The page as first rendered over a session storage, and an endpoint with a fixed answer.\<close>

definition fresh_page :: "(jsstring \<rightharpoonup> jsstring) \<Rightarrow> page" where
  "fresh_page m =
     \<lparr>sessionStorage = m, error = None, exchanging = False, fetched = [], console_error = [],
      timeouts = []\<rparr>"

definition respond :: "nat \<Rightarrow> exn + json \<Rightarrow> fetch" where
  "respond code result = (\<lambda>req. Inr \<lparr>status = code, json_result = result\<rparr>)"

definition token_response :: json where
  "token_response =
     JObj [(js ''access_token'', JStr (js ''abc'')), (js ''id_token'', JStr (js ''def'')),
           (js ''token_type'', JStr (js ''Bearer'')), (js ''expires_in'', JNum (js ''3600''))]"

definition invalid_grant :: json where
  "invalid_grant = JObj [(js ''error'', JStr (js ''invalid_grant''))]"

text \<open>
  The test vector of RFC 7636, appendix B: the verifier, its bytes, the one padded block
  they make, and their digest.
\<close>

definition rfc7636_verifier :: jsstring where
  "rfc7636_verifier = js ''dBjftJeZ4CVP-mB92K27uhbUJU1p1r_wW1gFWFOEjXk''"

definition rfc7636_bytes :: "u8 list" where
  "rfc7636_bytes =
    [100, 66, 106, 102, 116, 74, 101, 90, 52, 67, 86, 80, 45, 109, 66, 57,
     50, 75, 50, 55, 117, 104, 98, 85, 74, 85, 49, 112, 49, 114, 95, 119,
     87, 49, 103, 70, 87, 70, 79, 69, 106, 88, 107]"

definition rfc7636_block :: "nat list" where
  "rfc7636_block =
    [1682074214, 1951032666, 876828240, 762135097, 843788855, 1969775189,
     1247097200, 829579127, 1462855494, 1464225605, 1784179584, 0,
     0, 0, 0, 344]"

definition rfc7636_digest :: "u8 list" where
  "rfc7636_digest =
    [19, 211, 30, 150, 26, 26, 216, 236, 47, 22, 177, 12, 76, 152, 46, 8,
     118, 168, 120, 173, 109, 241, 68, 86, 110, 225, 137, 74, 203, 112, 249, 195]"

section \<open>The bytes of an ASCII string\<close>

lemma ascii_not_surrogate: "u < 0x80 \<Longrightarrow> \<not> is_high u \<and> \<not> is_low (u :: u16)"
  by (simp add: is_high_def is_low_def word_less_nat_alt word_le_nat_alt)

lemma utf8_of_ascii: "u < 0x80 \<Longrightarrow> utf8_of (unat (u :: u16)) = [ucast u]"
  by (simp add: utf8_of_def word_less_nat_alt)

lemma scalar_values_ascii:
  "list_all (\<lambda>c. c < 0x80) s \<Longrightarrow> scalar_values s = map unat s"
  by (induction s rule: scalar_values.induct) (simp_all add: ascii_not_surrogate)

lemma TextEncoder_encode_ascii:
  "list_all (\<lambda>c. c < 0x80) s \<Longrightarrow> TextEncoder_encode s = map ucast s"
proof -
  assume a: "list_all (\<lambda>c. c < 0x80) s"
  then have "concat (map utf8_of (map unat s)) = map ucast s"
    by (induction s) (simp_all add: utf8_of_ascii)
  with a show ?thesis
    by (simp add: TextEncoder_encode_def scalar_values_ascii)
qed

section \<open>The digest and its encodings\<close>

lemma length_bytes_of32: "length (bytes_of32 w) = 4"
  by (simp add: bytes_of32_def)

lemma length_digest_bytes: "length (digest_bytes s) = 32"
  by (cases s rule: digest_bytes.cases) (simp add: length_bytes_of32)

lemma length_SHA256: "length (SHA256 m) = 32"
  by (simp add: SHA256_def length_digest_bytes)

lemma unat_byte_less: "unat (b :: u8) < 256"
  using unsigned_less [of b, where 'a = nat] by simp

lemma ucast_byte_le: "(ucast (b :: u8) :: u16) \<le> 0xFF"
proof -
  have "unat (ucast b :: u16) = take_bit 16 (unat b)"
    by (simp add: unsigned_ucast_eq)
  also have "\<dots> = unat b"
    using unat_byte_less [of b] by (simp add: take_bit_nat_eq_self)
  finally show ?thesis
    using unat_byte_less [of b] by (simp add: word_le_nat_alt)
qed

lemma ucast_ucast_byte: "(ucast (ucast (b :: u8) :: u16) :: u8) = b"
  by (simp add: ucast_up_ucast_id is_up)

lemma btoa_fromCharCode: "btoa (fromCharCode bs) = Inr (btoa_bytes bs)"
proof -
  have "list_all (\<lambda>c. c \<le> 0xFF) (fromCharCode bs)"
    by (simp add: fromCharCode_def list_all_iff ucast_byte_le)
  moreover have "map ucast (fromCharCode bs) = bs"
    by (simp add: fromCharCode_def ucast_ucast_byte comp_def)
  ultimately show ?thesis
    by (simp add: btoa_def)
qed


lemma replace_all_twice:
  "replace_all (of_char (CHR ''/'')) (of_char (CHR ''_''))
     (replace_all (of_char (CHR ''+'')) (of_char (CHR ''-'')) b) = map url_safe b"
  by (simp add: replace_all_def url_safe_def Let_def)

lemma length_alnum: "length alnum = 62"
  by (simp add: alnum_def js_def)

lemma base64_alphabet_alnum: "js base64_alphabet = alnum @ [0x2B, 0x2F]"
  by (simp add: base64_alphabet_def alnum_def js_def)

lemma base64url_alphabet_alnum: "js base64url_alphabet = alnum @ [0x2D, 0x5F]"
  by (simp add: base64url_alphabet_def alnum_def js_def)

lemma alnum_plain: "0x2B \<notin> set alnum" "0x2F \<notin> set alnum" "0x3D \<notin> set alnum"
  by (simp_all add: alnum_def js_def)

lemma sextet_cases:
  assumes "i < (64 :: nat)"
  obtains "i < 62" | "i = 62" | "i = 63"
  using assms by linarith

lemma url_safe_b64chr: "i < 64 \<Longrightarrow> url_safe (b64chr i) = urlchr i"
proof (erule sextet_cases)
  assume "i < 62"
  then have "alnum ! i \<in> set alnum"
    by (simp add: length_alnum)
  with alnum_plain have "alnum ! i \<noteq> 0x2B" "alnum ! i \<noteq> 0x2F"
    by auto
  with \<open>i < 62\<close> show ?thesis
    by (simp add: b64chr_def urlchr_def base64_alphabet_alnum base64url_alphabet_alnum
        nth_append length_alnum url_safe_def)
next
  assume "i = 62"
  then show ?thesis
    by (simp add: b64chr_def urlchr_def base64_alphabet_alnum base64url_alphabet_alnum
        nth_append length_alnum url_safe_def)
next
  assume "i = 63"
  then show ?thesis
    by (simp add: b64chr_def urlchr_def base64_alphabet_alnum base64url_alphabet_alnum
        nth_append length_alnum url_safe_def)
qed

lemma urlchr_not_eq: "i < 64 \<Longrightarrow> urlchr i \<noteq> eq_sign"
proof (erule sextet_cases)
  assume "i < 62"
  then have "alnum ! i \<in> set alnum"
    by (simp add: length_alnum)
  with alnum_plain have "alnum ! i \<noteq> 0x3D"
    by auto
  with \<open>i < 62\<close> show ?thesis
    by (simp add: urlchr_def base64url_alphabet_alnum nth_append length_alnum eq_sign_def)
next
  assume "i = 62"
  then show ?thesis
    by (simp add: urlchr_def base64url_alphabet_alnum nth_append length_alnum eq_sign_def)
next
  assume "i = 63"
  then show ?thesis
    by (simp add: urlchr_def base64url_alphabet_alnum nth_append length_alnum eq_sign_def)
qed

lemma url_safe_eq_sign: "url_safe eq_sign = eq_sign"
  by (simp add: url_safe_def eq_sign_def)

lemma sextets:
  fixes a b c :: u8
  shows "unat a div 4 < 64" "unat a mod 4 * 16 < 64" "unat a mod 4 * 16 + unat b div 16 < 64"
    "unat b mod 16 * 4 < 64" "unat b mod 16 * 4 + unat c div 64 < 64" "unat c mod 64 < 64"
  using unat_byte_less [of a] unat_byte_less [of b] unat_byte_less [of c] by simp_all

lemma strip_trailing_eq_append:
  "x \<noteq> eq_sign \<Longrightarrow> strip_trailing_eq (xs @ x # ys) = xs @ x # strip_trailing_eq ys"
  by (simp add: strip_trailing_eq_def dropWhile_append)


lemma strip_trailing_eq_Nil: "strip_trailing_eq [] = []"
  by (simp add: strip_trailing_eq_def)

lemma strip_trailing_eq_pad: "strip_trailing_eq [eq_sign] = []" "strip_trailing_eq [eq_sign, eq_sign] = []"
  by (simp_all add: strip_trailing_eq_def)

lemma strip_quad:
  "d \<noteq> eq_sign \<Longrightarrow> strip_trailing_eq ([a, b, c, d] @ ys) = [a, b, c, d] @ strip_trailing_eq ys"
  using strip_trailing_eq_append [of d "[a, b, c]" ys] by simp

lemma strip_triple:
  "c \<noteq> eq_sign \<Longrightarrow> strip_trailing_eq [a, b, c, eq_sign] = [a, b, c]"
  using strip_trailing_eq_append [of c "[a, b]" "[eq_sign]"] by (simp add: strip_trailing_eq_pad)

lemma strip_pair:
  "b \<noteq> eq_sign \<Longrightarrow> strip_trailing_eq [a, b, eq_sign, eq_sign] = [a, b]"
  using strip_trailing_eq_append [of b "[a]" "[eq_sign, eq_sign]"] by (simp add: strip_trailing_eq_pad)

lemma to_url_btoa_bytes: "to_url (btoa_bytes bs) = base64url bs"
proof (induction bs rule: btoa_bytes.induct)
  case 1
  show ?case by (simp add: to_url_def strip_trailing_eq_Nil)
next
  case (2 a)
  show ?case
    by (simp add: to_url_def url_safe_b64chr sextets url_safe_eq_sign strip_pair urlchr_not_eq)
next
  case (3 a b)
  show ?case
    by (simp add: to_url_def url_safe_b64chr sextets url_safe_eq_sign strip_triple urlchr_not_eq)
next
  case (4 a b c rest)
  have "to_url (btoa_bytes (a # b # c # rest)) =
        strip_trailing_eq
          ([urlchr (unat a div 4), urlchr (unat a mod 4 * 16 + unat b div 16),
            urlchr (unat b mod 16 * 4 + unat c div 64), urlchr (unat c mod 64)]
           @ map url_safe (btoa_bytes rest))"
    by (simp add: to_url_def url_safe_b64chr sextets)
  also have "\<dots> =
        [urlchr (unat a div 4), urlchr (unat a mod 4 * 16 + unat b div 16),
         urlchr (unat b mod 16 * 4 + unat c div 64), urlchr (unat c mod 64)]
        @ to_url (btoa_bytes rest)"
    unfolding to_url_def by (rule strip_quad) (simp add: urlchr_not_eq sextets)
  finally show ?case
    using "4.IH" by simp
qed

lemma sha256_refines: "sha256 plain = Inr (s256_challenge plain)"
proof -
  have "strip_trailing_eq
          (replace_all (of_char (CHR ''/'')) (of_char (CHR ''_''))
            (replace_all (of_char (CHR ''+'')) (of_char (CHR ''-'')) (btoa_bytes bs))) =
        base64url bs" for bs
    using to_url_btoa_bytes [of bs] by (simp only: replace_all_twice to_url_def)
  then show ?thesis
    by (simp only: sha256_def Let_def btoa_fromCharCode sum.case s256_challenge_def)
qed

lemma length_base64url: "length (base64url bs) = (4 * length bs + 2) div 3"
  by (induction bs rule: base64url.induct) simp_all

lemma length_base64url_alphabet: "length (js base64url_alphabet) = 64"
  by (simp add: base64url_alphabet_def js_def)

lemma urlchr_mem: "i < 64 \<Longrightarrow> urlchr i \<in> set (js base64url_alphabet)"
  by (simp add: urlchr_def length_base64url_alphabet)

lemma set_base64url: "set (base64url bs) \<subseteq> set (js base64url_alphabet)"
  by (induction bs rule: base64url.induct) (simp_all add: urlchr_mem sextets)

lemma base64url_alphabet_plain:
  "of_char (CHR ''='') \<notin> set (js base64url_alphabet)"
  "of_char (CHR ''+'') \<notin> set (js base64url_alphabet)"
  "of_char (CHR ''/'') \<notin> set (js base64url_alphabet)"
  by (simp_all add: base64url_alphabet_def js_def)

lemma div3_step: "(5 + n) div 3 = Suc ((Suc (Suc n)) div (3 :: nat))"
  by presburger

lemma length_btoa_bytes: "length (btoa_bytes bs) = 4 * ((length bs + 2) div 3)"
  by (induction bs rule: btoa_bytes.induct) (simp_all add: div3_step)

lemma b64chr_not_eq: "i < 64 \<Longrightarrow> b64chr i \<noteq> eq_sign"
proof (erule sextet_cases)
  assume "i < 62"
  then have "alnum ! i \<in> set alnum"
    by (simp add: length_alnum)
  with alnum_plain have "alnum ! i \<noteq> 0x3D"
    by auto
  with \<open>i < 62\<close> show ?thesis
    by (simp add: b64chr_def base64_alphabet_alnum nth_append length_alnum eq_sign_def)
next
  assume "i = 62"
  then show ?thesis
    by (simp add: b64chr_def base64_alphabet_alnum nth_append length_alnum eq_sign_def)
next
  assume "i = 63"
  then show ?thesis
    by (simp add: b64chr_def base64_alphabet_alnum nth_append length_alnum eq_sign_def)
qed

lemma btoa_bytes_one_pad:
  "length bs mod 3 = 2 \<Longrightarrow> \<exists>ys. btoa_bytes bs = ys @ [eq_sign] \<and> eq_sign \<notin> set ys"
proof (induction bs rule: btoa_bytes.induct)
  case (3 a b)
  have "btoa_bytes [a, b] =
        [b64chr (unat a div 4), b64chr (unat a mod 4 * 16 + unat b div 16),
         b64chr (unat b mod 16 * 4)] @ [eq_sign]"
    by simp
  moreover have "eq_sign \<notin> set [b64chr (unat a div 4),
      b64chr (unat a mod 4 * 16 + unat b div 16), b64chr (unat b mod 16 * 4)]"
    using b64chr_not_eq [OF sextets(1) [of a]] b64chr_not_eq [OF sextets(3) [of a b]]
      b64chr_not_eq [OF sextets(4) [of b]]
    by auto
  ultimately show ?case by blast
next
  case (4 a b c rest)
  then obtain ys where ys: "btoa_bytes rest = ys @ [eq_sign]" "eq_sign \<notin> set ys"
    by auto
  let ?q = "[b64chr (unat a div 4), b64chr (unat a mod 4 * 16 + unat b div 16),
             b64chr (unat b mod 16 * 4 + unat c div 64), b64chr (unat c mod 64)]"
  have "btoa_bytes (a # b # c # rest) = (?q @ ys) @ [eq_sign]"
    using ys(1) by simp
  moreover have "eq_sign \<notin> set (?q @ ys)"
    using ys(2) b64chr_not_eq [OF sextets(1) [of a]] b64chr_not_eq [OF sextets(3) [of a b]]
      b64chr_not_eq [OF sextets(5) [of b c]] b64chr_not_eq [OF sextets(6) [of c]]
    by auto
  ultimately show ?case by blast
qed simp_all

section \<open>The test vector of RFC 7636\<close>

lemma replicate_numeral: "replicate (numeral k) x = x # replicate (pred_numeral k) x"
  by (simp add: numeral_eq_Suc)

lemma rfc7636_encode: "TextEncoder_encode rfc7636_verifier = rfc7636_bytes"
  by (simp add: rfc7636_verifier_def rfc7636_bytes_def js_def TextEncoder_encode_def utf8_of_def
      is_high_def is_low_def)

lemma rfc7636_pad: "words_of (pad rfc7636_bytes) = rfc7636_block" "length (pad rfc7636_bytes) = 64"
  by (simp_all add: rfc7636_bytes_def rfc7636_block_def pad_def bytes_of64_def bytes_of32_def
      be32_def replicate_numeral)

lemma rfc7636_compress:
  "compress H0 rfc7636_block =
     (332603030, 437967084, 790016268, 1285041672, 1990752429, 1844528214, 1860274506, 3413178819)"
  by (simp add: rfc7636_block_def compress_def H0_def K256_def T1_def T2_def Sigma0_def
      Sigma1_def sigma0_def sigma1_def Ch_def Maj_def rotr_def add32_def)

lemma rfc7636_SHA256: "SHA256 rfc7636_bytes = rfc7636_digest"
proof -
  have "blocks H0 (pad rfc7636_bytes) = compress H0 rfc7636_block"
    by (simp add: blocks.simps [of _ "pad rfc7636_bytes"] blocks.simps [of _ "[]"] rfc7636_pad)
  then show ?thesis
    by (simp add: SHA256_def rfc7636_compress rfc7636_digest_def bytes_of32_def)
qed

lemma rfc7636_base64url:
  "base64url rfc7636_digest = js ''E9Melhoa2OwvFrEMTJguCHaoeK1t8URWbuGJSstw-cM''"
  by (simp add: rfc7636_digest_def urlchr_def base64url_alphabet_def js_def)

section \<open>The verifier\<close>

lemma length_charset: "length (js charset) = 66"
  by (simp add: charset_def js_def)

lemma distinct_charset: "distinct (js charset)"
  by (simp add: charset_def js_def)

lemma generateRandomString_eq:
  "fst (generateRandomString n g) = map (\<lambda>i. js charset ! (unat (g i) mod 66)) [0..<n]"
  by (simp add: generateRandomString_def getRandomValues_def length_charset comp_def)

lemma length_generateRandomString: "length (fst (generateRandomString n g)) = n"
  by (simp add: generateRandomString_eq)

lemma set_generateRandomString: "set (fst (generateRandomString n g)) \<subseteq> set (js charset)"
proof -
  have "js charset ! (k mod 66) \<in> set (js charset)" for k :: nat
    by (rule nth_mem) (simp add: length_charset)
  then show ?thesis
    by (auto simp: generateRandomString_eq)
qed

lemma startAuthFlow_verifier:
  "home_storage (fst (startAuthFlow g st)) (js ''code_verifier'') = Some (fst (generateRandomString 128 g))"
  by (simp add: startAuthFlow_def sha256_refines Let_def split: prod.splits)

section \<open>Properties of the PKCE values\<close>

text \<open>
  C1. For every verifier string, the challenge that \<open>sha256\<close> returns is the base64url
  encoding without padding (RFC 4648, section 5: \<open>-\<close> and \<open>_\<close> in place of \<open>+\<close> and
  \<open>/\<close>, no trailing \<open>=\<close>) of the SHA-256 digest of the verifier's UTF-8 bytes, which
  for a verifier of ASCII characters are its ASCII codes; the exception of \<open>btoa\<close> never
  arises.
\<close>

theorem sha256_is_base64url_of_digest:
  "sha256 verifier = Inr (base64url (SHA256 (TextEncoder_encode verifier)))
   \<and> (list_all (\<lambda>c. c < 0x80) verifier \<longrightarrow>
        sha256 verifier = Inr (base64url (SHA256 (map ucast verifier))))"
  using sha256_refines [of verifier] TextEncoder_encode_ascii [of verifier]
  by (simp only: s256_challenge_def) simp

theorem sha256_is_base64url_of_digest_witness:
  "list_all (\<lambda>c. c < 0x80) (js ''abc'')
   \<and> sha256 (js ''abc'') = Inr (base64url (SHA256 [0x61, 0x62, 0x63]))"
proof -
  have a: "list_all (\<lambda>c. c < 0x80) (js ''abc'')"
    by (simp add: js_def)
  have b: "map ucast (js ''abc'') = [0x61, 0x62, 0x63 :: u8]"
    by (simp add: js_def)
  from a sha256_is_base64url_of_digest [of "js ''abc''"]
  have "sha256 (js ''abc'') = Inr (base64url (SHA256 (map ucast (js ''abc''))))"
    by blast
  with a show ?thesis
    by (simp only: b)
qed

text \<open>
  C2. On the verifier \<open>dBjftJeZ4CVP-mB92K27uhbUJU1p1r_wW1gFWFOEjXk\<close> the helper
  returns exactly \<open>E9Melhoa2OwvFrEMTJguCHaoeK1t8URWbuGJSstw-cM\<close>.
\<close>

theorem sha256_rfc7636_vector:
  "sha256 (js ''dBjftJeZ4CVP-mB92K27uhbUJU1p1r_wW1gFWFOEjXk'') =
     Inr (js ''E9Melhoa2OwvFrEMTJguCHaoeK1t8URWbuGJSstw-cM'')"
proof -
  have "s256_challenge rfc7636_verifier = js ''E9Melhoa2OwvFrEMTJguCHaoeK1t8URWbuGJSstw-cM''"
    by (simp only: s256_challenge_def rfc7636_encode rfc7636_SHA256 rfc7636_base64url)
  with sha256_refines [of rfc7636_verifier] show ?thesis
    by (simp only: rfc7636_verifier_def)
qed

text \<open>
  C7. The verifier that \<open>startAuthFlow\<close> stores is \<open>generateRandomString(128)\<close>: each of
  its characters is the random byte at that position, taken modulo 66, looked up in the
  character set; its length is exactly 128, hence within 43 and 128; every character is
  one of the 66 distinct characters \<open>A-Z a-z 0-9 - . _ ~\<close>.
\<close>

theorem verifier_length_and_charset:
  "home_storage (fst (startAuthFlow g st)) (js ''code_verifier'') =
     Some (fst (generateRandomString 128 g))
   \<and> fst (generateRandomString 128 g) = map (\<lambda>i. js charset ! (unat (g i) mod 66)) [0..<128]
   \<and> length (fst (generateRandomString 128 g)) = 128
   \<and> 43 \<le> length (fst (generateRandomString 128 g))
   \<and> length (fst (generateRandomString 128 g)) \<le> 128
   \<and> set (fst (generateRandomString 128 g)) \<subseteq> set (js charset)
   \<and> length (js charset) = 66 \<and> distinct (js charset)"
  using startAuthFlow_verifier [of g st] generateRandomString_eq [of 128 g]
    set_generateRandomString [of 128 g] length_charset distinct_charset
  by (simp only: length_generateRandomString) simp

text \<open>
  C10. For every input string the digest has 32 bytes, its base64 text has 44 characters
  of which exactly the last is \<open>=\<close>, and \<open>sha256\<close> returns a string of exactly 43
  characters, all of the base64url alphabet, none of them \<open>=\<close>, \<open>+\<close> or \<open>/\<close>.
\<close>

theorem sha256_output_shape:
  "\<exists>b out.
     length (SHA256 (TextEncoder_encode plain)) = 32
     \<and> btoa (fromCharCode (SHA256 (TextEncoder_encode plain))) = Inr (b @ [eq_sign])
     \<and> length (b @ [eq_sign]) = 44 \<and> eq_sign \<notin> set b
     \<and> sha256 plain = Inr out
     \<and> length out = 43
     \<and> set out \<subseteq> set (js base64url_alphabet)
     \<and> of_char (CHR ''='') \<notin> set out
     \<and> of_char (CHR ''+'') \<notin> set out
     \<and> of_char (CHR ''/'') \<notin> set out"
proof -
  let ?d = "SHA256 (TextEncoder_encode plain)"
  have len: "length ?d = 32"
    by (rule length_SHA256)
  then have "length ?d mod 3 = 2"
    by simp
  then obtain b where b: "btoa_bytes ?d = b @ [eq_sign]" "eq_sign \<notin> set b"
    using btoa_bytes_one_pad by blast
  have "length (btoa_bytes ?d) = 44"
    by (simp add: length_btoa_bytes len)
  with b(1) have b44: "length (b @ [eq_sign]) = 44"
    by simp
  have out: "sha256 plain = Inr (base64url ?d)"
    using sha256_refines [of plain] by (simp only: s256_challenge_def)
  have l43: "length (base64url ?d) = 43"
    by (simp add: length_base64url len)
  have sub: "set (base64url ?d) \<subseteq> set (js base64url_alphabet)"
    by (rule set_base64url)
  have "of_char (CHR ''='') \<notin> set (base64url ?d)" "of_char (CHR ''+'') \<notin> set (base64url ?d)"
    "of_char (CHR ''/'') \<notin> set (base64url ?d)"
    using sub base64url_alphabet_plain by blast+
  with len b b44 out l43 sub show ?thesis
    by (simp only: btoa_fromCharCode) blast
qed

section \<open>Runs of the exchanger\<close>

lemma exchangeCodeForTokens_no_verifier:
  "\<not> truthy_param (sessionStorage st (js ''code_verifier'')) \<Longrightarrow>
   exchangeCodeForTokens fetch code st = caught missing_verifier st"
  by (simp add: exchangeCodeForTokens_def exchange_try_def caught_def missing_verifier_def)

lemma exchangeCodeForTokens_rejected:
  "truthy_param (sessionStorage st (js ''code_verifier'')) \<Longrightarrow>
   fetch (token_request code (String_of (sessionStorage st (js ''code_verifier'')))) = Inl e \<Longrightarrow>
   exchangeCodeForTokens fetch code st = caught e (sent code st)"
  by (simp add: exchangeCodeForTokens_def exchange_try_def caught_def sent_def Let_def)

lemma exchangeCodeForTokens_not_ok:
  "truthy_param (sessionStorage st (js ''code_verifier'')) \<Longrightarrow>
   fetch (token_request code (String_of (sessionStorage st (js ''code_verifier'')))) = Inr r \<Longrightarrow>
   \<not> ok r \<Longrightarrow>
   exchangeCodeForTokens fetch code st =
     (case json_result r of
        Inl e \<Rightarrow> caught e (sent code st)
      | Inr errorData \<Rightarrow>
          (case get_prop errorData (js ''error_description'') of
             Inl e \<Rightarrow> caught e (sent code st)
           | Inr d \<Rightarrow>
               caught (Error (if truthy d then ToString d else js ''Token exchange failed''))
                 (sent code st)))"
  by (simp add: exchangeCodeForTokens_def exchange_try_def caught_def sent_def Let_def
      split: sum.splits)

lemma get_prop_field: "v \<noteq> JNull \<Longrightarrow> get_prop v name = Inr (field v name)"
  by (cases v) (simp_all add: field_def)

lemma store_tokens_null:
  "store_tokens JNull st = (Some (null_read (js ''access_token'')), st)"
  by (simp add: store_tokens_def)

lemma store_tokens_value:
  "v \<noteq> JNull \<Longrightarrow> store_tokens v st = (None, stored v st)"
  by (simp add: store_tokens_def get_prop_field stored_def setItem_def Let_def)

lemma exchangeCodeForTokens_ok:
  "truthy_param (sessionStorage st (js ''code_verifier'')) \<Longrightarrow>
   fetch (token_request code (String_of (sessionStorage st (js ''code_verifier'')))) = Inr r \<Longrightarrow>
   ok r \<Longrightarrow>
   exchangeCodeForTokens fetch code st =
     (case json_result r of
        Inl e \<Rightarrow> caught e (sent code st)
      | Inr tokenData \<Rightarrow>
          if tokenData = JNull then caught (null_read (js ''access_token'')) (sent code st)
          else (stored tokenData (sent code st))\<lparr>exchanging := False\<rparr>)"
  by (simp add: exchangeCodeForTokens_def exchange_try_def caught_def sent_def Let_def
      store_tokens_null store_tokens_value stored_def split: sum.splits)

lemma storage_caught: "sessionStorage (caught e st) = sessionStorage st"
  by (simp add: caught_def)

lemma storage_sent: "sessionStorage (sent code st) = sessionStorage st"
  by (simp add: sent_def)




lemma verifier_stored:
  "sessionStorage (stored v st) (js ''code_verifier'') = sessionStorage st (js ''code_verifier'')"
  by (simp add: stored_def js_def Let_def)

text \<open>Every run of the exchanger is one of four.\<close>

lemma exchangeCodeForTokens_cases:
  obtains
    (no_verifier) "exchangeCodeForTokens fetch code st = caught missing_verifier st"
  | (thrown) e where "exchangeCodeForTokens fetch code st = caught e (sent code st)"
  | (stored) v where
      "exchangeCodeForTokens fetch code st =
         (stored v (sent code st))\<lparr>exchanging := False\<rparr>"
proof (cases "truthy_param (sessionStorage st (js ''code_verifier''))")
  case False
  then show ?thesis
    using no_verifier exchangeCodeForTokens_no_verifier by blast
next
  case True
  let ?req = "token_request code (String_of (sessionStorage st (js ''code_verifier'')))"
  show ?thesis
  proof (cases "fetch ?req")
    case (Inl e)
    with True show ?thesis
      using thrown exchangeCodeForTokens_rejected by blast
  next
    case (Inr r)
    show ?thesis
    proof (cases "ok r")
      case False
      with True Inr have
        "\<exists>e. exchangeCodeForTokens fetch code st = caught e (sent code st)"
        by (auto simp: exchangeCodeForTokens_not_ok split: sum.splits)
      then show ?thesis
        using thrown by blast
    next
      case ok: True
      with True Inr have
        "(\<exists>e. exchangeCodeForTokens fetch code st = caught e (sent code st))
         \<or> (\<exists>v. exchangeCodeForTokens fetch code st =
               (stored v (sent code st))\<lparr>exchanging := False\<rparr>)"
        by (auto simp: exchangeCodeForTokens_ok split: sum.splits)
      then show ?thesis
        using thrown stored by blast
    qed
  qed
qed

lemma exchange_keeps_verifier:
  "sessionStorage (exchangeCodeForTokens fetch code st) (js ''code_verifier'') =
   sessionStorage st (js ''code_verifier'')"
  by (rule exchangeCodeForTokens_cases [of fetch code st])
     (simp_all add: storage_caught storage_sent verifier_stored)



lemma failed_with_caught: "failed_with e st (caught e st)"
  by (simp add: failed_with_def caught_def)


lemma stored_fields:
  "error (stored v (sent code st)) = error st"
  "console_error (stored v (sent code st)) = console_error st"
  "timeouts (stored v (sent code st)) = timeouts st @ [(1500, js ''/'')]"
  "fetched (stored v (sent code st)) =
     fetched st @ [token_request code (String_of (sessionStorage st (js ''code_verifier'')))]"
  by (simp_all add: stored_def sent_def)


lemma fresh_page_fields:
  "sessionStorage (fresh_page m) = m" "error (fresh_page m) = None"
  "exchanging (fresh_page m) = False" "fetched (fresh_page m) = []"
  "console_error (fresh_page m) = []" "timeouts (fresh_page m) = []"
  by (simp_all add: fresh_page_def)

text \<open>Two runs over a stored verifier: the endpoint accepts, the endpoint rejects.\<close>

lemma example_verifier:
  "truthy_param (sessionStorage (fresh_page [js ''code_verifier'' \<mapsto> js ''v'']) (js ''code_verifier''))"
  "String_of (sessionStorage (fresh_page [js ''code_verifier'' \<mapsto> js ''v'']) (js ''code_verifier'')) = js ''v''"
  by (simp_all add: fresh_page_fields truthy_param_def truthy_str_def String_of_def js_def)

lemma example_accepted:
  "exchangeCodeForTokens (respond 200 (Inr token_response)) (js ''abc'')
     (fresh_page [js ''code_verifier'' \<mapsto> js ''v'']) =
   (stored token_response (sent (js ''abc'') (fresh_page [js ''code_verifier'' \<mapsto> js ''v''])))
     \<lparr>exchanging := False\<rparr>"
proof -
  have "ok \<lparr>status = 200, json_result = Inr token_response\<rparr>"
    by (simp add: ok_def)
  moreover have "token_response \<noteq> JNull"
    by (simp add: token_response_def)
  ultimately show ?thesis
    using exchangeCodeForTokens_ok [where fetch = "respond 200 (Inr token_response)",
        OF example_verifier(1)]
    by (simp add: respond_def)
qed

lemma example_rejected:
  "exchangeCodeForTokens (respond 400 (Inr invalid_grant)) (js ''abc'')
     (fresh_page [js ''code_verifier'' \<mapsto> js ''v'']) =
   caught (Error (js ''Token exchange failed''))
     (sent (js ''abc'') (fresh_page [js ''code_verifier'' \<mapsto> js ''v'']))"
proof -
  have "\<not> ok \<lparr>status = 400, json_result = Inr invalid_grant\<rparr>"
    by (simp add: ok_def)
  moreover have "get_prop invalid_grant (js ''error_description'') = Inr None"
    by (simp add: invalid_grant_def js_def)
  ultimately show ?thesis
    using exchangeCodeForTokens_not_ok [where fetch = "respond 400 (Inr invalid_grant)",
        OF example_verifier(1)]
    by (simp add: respond_def)
qed





section \<open>Properties of the token exchange\<close>

text \<open>
  C3 as stated does not hold: after an accepted exchange and after a rejected one the
  verifier is still in session storage, so a later load returns it.
\<close>

theorem verifier_survives_exchange_counterexample:
  "error (exchangeCodeForTokens (respond 200 (Inr token_response)) (js ''abc'')
       (fresh_page [js ''code_verifier'' \<mapsto> js ''v''])) = None
   \<and> sessionStorage
       (exchangeCodeForTokens (respond 200 (Inr token_response)) (js ''abc'')
          (fresh_page [js ''code_verifier'' \<mapsto> js ''v'']))
       (js ''code_verifier'') = Some (js ''v'')
   \<and> error (exchangeCodeForTokens (respond 400 (Inr invalid_grant)) (js ''abc'')
       (fresh_page [js ''code_verifier'' \<mapsto> js ''v''])) = Some (js ''Token exchange failed'')
   \<and> sessionStorage
       (exchangeCodeForTokens (respond 400 (Inr invalid_grant)) (js ''abc'')
          (fresh_page [js ''code_verifier'' \<mapsto> js ''v'']))
       (js ''code_verifier'') = Some (js ''v'')"
  by (simp add: example_accepted example_rejected verifier_stored storage_sent storage_caught
      fresh_page_fields stored_fields caught_def)

text \<open>
  C3, amended. After every exchange attempt, whether it succeeds or fails, the code
  verifier in session storage is what it was before the attempt: the exchanger never
  clears it, and a later load returns the same value.
\<close>

theorem exchange_leaves_verifier:
  "sessionStorage (exchangeCodeForTokens fetch code st) (js ''code_verifier'') =
   sessionStorage st (js ''code_verifier'')"
  by (rule exchange_keeps_verifier)

text \<open>
  C4. If session storage holds no code verifier when the exchanger runs, the attempt
  fails with the error \<open>Code verifier not found\<close> and no request is sent: the list of
  requests is as it was, whatever the endpoint would have answered.
\<close>

theorem missing_verifier_no_request:
  "sessionStorage st (js ''code_verifier'') = None \<Longrightarrow>
   failed_with missing_verifier st (exchangeCodeForTokens fetch code st)
   \<and> error (exchangeCodeForTokens fetch code st) =
       Some (js ''Code verifier not found. Please start the auth flow from the home page.'')
   \<and> fetched (exchangeCodeForTokens fetch code st) = fetched st"
  by (simp add: exchangeCodeForTokens_no_verifier truthy_param_def failed_with_caught)
     (simp add: caught_def missing_verifier_def)

theorem missing_verifier_no_request_witness:
  "sessionStorage (fresh_page Map.empty) (js ''code_verifier'') = None
   \<and> error (exchangeCodeForTokens (respond 200 (Inr (JObj []))) (js ''abc'')
        (fresh_page Map.empty)) =
       Some (js ''Code verifier not found. Please start the auth flow from the home page.'')
   \<and> fetched (exchangeCodeForTokens (respond 200 (Inr (JObj []))) (js ''abc'')
        (fresh_page Map.empty)) = []"
  using missing_verifier_no_request [of "fresh_page Map.empty" "respond 200 (Inr (JObj []))"
      "js ''abc''"]
  by (simp add: fresh_page_fields)












end
